theory Spec2Isabelle
  imports Complex_Main "HOL-Library.Monad_Syntax"
begin

section \<open>The numeric layer\<close>

text \<open>
  The cart-pole model of \<^verbatim>\<open>ilqr/examples/cartpole.py\<close> computes with IEEE doubles.
  The embedding idealises them as the real numbers: rounding, overflow and the sign of
  zero are outside it. The one place where real arithmetic in HOL would silently differ
  from the program is division by zero (\<open>a / 0 = 0\<close> in HOL, infinity or NaN in the
  program), so division is modelled by \<open>fdiv\<close>, whose result \<open>None\<close> stands for a
  non-finite value.
\<close>

datatype error = ValueError | IndexError

text \<open>
  A numpy array of dimension 0, 1 or 2. A two-dimensional array carries its column
  count, so that an array with no rows still has a shape \<open>(0, m)\<close>; every row of a
  well-formed one has that length. Arrays of more than two dimensions are not modelled.
\<close>

datatype ndarray = Array0 real | Array1 "real list" | Array2 nat "real list list"

fun ndim :: "ndarray \<Rightarrow> nat" where
  "ndim (Array0 v) = 0"
| "ndim (Array1 xs) = 1"
| "ndim (Array2 m rows) = 2"

fun wellformed :: "ndarray \<Rightarrow> bool" where
  "wellformed (Array2 m rows) = list_all (\<lambda>r. length r = m) rows"
| "wellformed a = True"

text \<open>Sequencing of computations that may raise: the first error is the result.\<close>

definition and_then :: "error + 'a \<Rightarrow> ('a \<Rightarrow> error + 'b) \<Rightarrow> error + 'b" where
  "and_then r k = (case r of Inl e \<Rightarrow> Inl e | Inr v \<Rightarrow> k v)"

text \<open>
  \<^verbatim>\<open>state[:, k].reshape(-1, 1)\<close>: column \<open>k\<close> of a two-dimensional array, as the list
  of its entries from the first row to the last. Indexing a second axis that the array
  does not have, or a column beyond its column count, raises \<^verbatim>\<open>IndexError\<close>.
\<close>

fun column :: "ndarray \<Rightarrow> nat \<Rightarrow> error + real list" where
  "column (Array2 m rows) k =
     (if k < m then Inr (map (\<lambda>r. r ! k) rows) else Inl IndexError)"
| "column a k = Inl IndexError"

text \<open>
  \<^verbatim>\<open>np.hstack\<close> of scalars gives the vector of them; \<^verbatim>\<open>np.hstack\<close> of \<open>N \<times> 1\<close>
  columns puts them side by side, and raises \<^verbatim>\<open>ValueError\<close> when there is nothing to
  stack or the row counts differ.
\<close>

definition hstack_scalars :: "real list \<Rightarrow> error + ndarray" where
  "hstack_scalars vs = (case vs of [] \<Rightarrow> Inl ValueError | v # ws \<Rightarrow> Inr (Array1 vs))"

definition hstack_columns :: "real list list \<Rightarrow> error + ndarray" where
  "hstack_columns cols =
     (case cols of
        [] \<Rightarrow> Inl ValueError
      | c # cs \<Rightarrow>
          if list_all (\<lambda>d. length d = length c) cs
          then Inr (Array2 (length cols) (map (\<lambda>i. map (\<lambda>d. d ! i) cols) [0..<length c]))
          else Inl ValueError)"

text \<open>
  The two-argument arctangent of \<^verbatim>\<open>np.arctan2\<close> and \<^verbatim>\<open>T.arctan2\<close> (the C library's
  \<^verbatim>\<open>atan2\<close>), first argument the ordinate, on real numbers.
\<close>

definition arctan2 :: "real \<Rightarrow> real \<Rightarrow> real" where
  "arctan2 y x =
     (if 0 < x then arctan (y / x)
      else if x < 0 then (if 0 \<le> y then arctan (y / x) + pi else arctan (y / x) - pi)
      else if 0 < y then pi / 2
      else if y < 0 then - (pi / 2)
      else 0)"

definition fdiv :: "real \<Rightarrow> real \<Rightarrow> real option" where
  "fdiv a b = (if b = 0 then None else Some (a / b))"

section \<open>The dynamics builder\<close>

record params =
  dt :: real
  constrain :: bool
  min_bounds :: real
  max_bounds :: real
  mc :: real
  mp :: real
  l :: real
  g :: real

text \<open>The defaults of \<^verbatim>\<open>CartpoleDynamics.__init__\<close>; the time step has none.\<close>

definition default_params :: "real \<Rightarrow> params" where
  "default_params h =
     \<lparr>dt = h, constrain = True, min_bounds = - 1, max_bounds = 1,
      mc = 1, mp = 1 / 10, l = 1, g = 980665 / 100000\<rparr>"

text \<open>
  The force that enters the dynamics. The squashing function \<^verbatim>\<open>tensor_constrain\<close> is
  imported from \<^verbatim>\<open>ilqr/dynamics.py\<close>, which is not among the sources, so it is the
  parameter \<open>squash\<close> here.
\<close>

definition F :: "(real \<Rightarrow> real \<Rightarrow> real \<Rightarrow> real) \<Rightarrow> params \<Rightarrow> real \<Rightarrow> real" where
  "F squash p u = (if constrain p then squash u (min_bounds p) (max_bounds p) else u)"

text \<open>Eq. (23)\<close>

definition temp :: "params \<Rightarrow> real \<Rightarrow> real \<Rightarrow> real \<Rightarrow> real option" where
  "temp p force sin_theta theta_dot =
     fdiv (force + mp p * l p * theta_dot\<^sup>2 * sin_theta) (mc p + mp p)"

definition numerator :: "params \<Rightarrow> real \<Rightarrow> real \<Rightarrow> real \<Rightarrow> real \<Rightarrow> real option" where
  "numerator p force sin_theta cos_theta theta_dot =
     do { t \<leftarrow> temp p force sin_theta theta_dot;
          Some (g p * sin_theta - cos_theta * t) }"

definition denominator :: "params \<Rightarrow> real \<Rightarrow> real option" where
  "denominator p cos_theta =
     do { q \<leftarrow> fdiv (mp p * cos_theta\<^sup>2) (mc p + mp p);
          Some (l p * (4 / 3 - q)) }"

definition theta_dot_dot :: "params \<Rightarrow> real \<Rightarrow> real \<Rightarrow> real \<Rightarrow> real \<Rightarrow> real option" where
  "theta_dot_dot p force sin_theta cos_theta theta_dot =
     do { n \<leftarrow> numerator p force sin_theta cos_theta theta_dot;
          d \<leftarrow> denominator p cos_theta;
          fdiv n d }"

text \<open>Eq. (24)\<close>

definition x_dot_dot :: "params \<Rightarrow> real \<Rightarrow> real \<Rightarrow> real \<Rightarrow> real \<Rightarrow> real option" where
  "x_dot_dot p force sin_theta cos_theta theta_dot =
     do { t \<leftarrow> temp p force sin_theta theta_dot;
          a \<leftarrow> theta_dot_dot p force sin_theta cos_theta theta_dot;
          q \<leftarrow> fdiv (mp p * l p * a * cos_theta) (mc p + mp p);
          Some (t - q) }"

text \<open>
  The stacked expression \<^verbatim>\<open>f\<close> handed to the differentiation layer, evaluated at the
  five state inputs and the control input.
\<close>

definition f ::
  "(real \<Rightarrow> real \<Rightarrow> real \<Rightarrow> real) \<Rightarrow> params \<Rightarrow>
     real \<Rightarrow> real \<Rightarrow> real \<Rightarrow> real \<Rightarrow> real \<Rightarrow> real \<Rightarrow> real option list" where
  "f squash p x x_dot sin_theta cos_theta theta_dot u =
     (let force = F squash p u;
          theta = arctan2 sin_theta cos_theta;
          next_theta = theta + theta_dot * dt p
      in [Some (x + x_dot * dt p),
          do { a \<leftarrow> x_dot_dot p force sin_theta cos_theta theta_dot;
               Some (x_dot + a * dt p) },
          Some (sin next_theta),
          Some (cos next_theta),
          do { a \<leftarrow> theta_dot_dot p force sin_theta cos_theta theta_dot;
               Some (theta_dot + a * dt p) }])"

text \<open>
  Modelled from the spec: the control-squashing collaborator \<^verbatim>\<open>tensor_constrain\<close> of
  \<^verbatim>\<open>ilqr/dynamics.py\<close>, which the sources do not contain. The spec describes it as
  differentiable, monotonic and saturating smoothly into the interval between the
  bounds, and gives no formula; the scaled hyperbolic tangent is taken as the function
  of that description.
\<close>

definition tensor_constrain :: "real \<Rightarrow> real \<Rightarrow> real \<Rightarrow> real" where
  "tensor_constrain u lo hi = (hi - lo) / 2 * tanh u + (hi + lo) / 2"

section \<open>The state representation converter\<close>

text \<open>
  Both class methods test \<^verbatim>\<open>state.ndim == 1\<close>. The first equation of each function
  below is that branch: the vector is unpacked into exactly four (five) scalars, which
  raises \<^verbatim>\<open>ValueError\<close> for any other length. The second equation is the \<^verbatim>\<open>else\<close>
  branch, taken by every other dimension: the columns are read one after the other,
  and no column beyond the last one read is looked at. The closing \<^verbatim>\<open>np.hstack\<close>, which
  the source shares between the branches, stacks scalars in the first and columns in
  the second.
\<close>

fun augment_state :: "ndarray \<Rightarrow> error + ndarray" where
  "augment_state (Array1 state) =
     (case state of
        [x, x_dot, theta, theta_dot] \<Rightarrow>
          hstack_scalars [x, x_dot, sin theta, cos theta, theta_dot]
      | _ \<Rightarrow> Inl ValueError)"
| "augment_state state =
     and_then (column state 0) (\<lambda>x.
     and_then (column state 1) (\<lambda>x_dot.
     and_then (column state 2) (\<lambda>theta.
     and_then (column state 3) (\<lambda>theta_dot.
       hstack_columns [x, x_dot, map sin theta, map cos theta, theta_dot]))))"

fun reduce_state :: "ndarray \<Rightarrow> error + ndarray" where
  "reduce_state (Array1 state) =
     (case state of
        [x, x_dot, sin_theta, cos_theta, theta_dot] \<Rightarrow>
          hstack_scalars [x, x_dot, arctan2 sin_theta cos_theta, theta_dot]
      | _ \<Rightarrow> Inl ValueError)"
| "reduce_state state =
     and_then (column state 0) (\<lambda>x.
     and_then (column state 1) (\<lambda>x_dot.
     and_then (column state 2) (\<lambda>sin_theta.
     and_then (column state 3) (\<lambda>cos_theta.
     and_then (column state 4) (\<lambda>theta_dot.
       hstack_columns [x, x_dot, map2 arctan2 sin_theta cos_theta, theta_dot])))))"

section \<open>Reference descriptions\<close>

text \<open>
  The next augmented state as the specification writes it, in plain real arithmetic:
  the effective longitudinal force term, the angular acceleration (Florian eq. 23), the
  linear acceleration (eq. 24), the explicit Euler step on the recovered angle, and the
  five components of the result. It is compared with \<open>f\<close> below.
\<close>

definition spec_next_state ::
  "params \<Rightarrow> real \<Rightarrow> real \<Rightarrow> real \<Rightarrow> real \<Rightarrow> real \<Rightarrow> real \<Rightarrow> real list" where
  "spec_next_state p force x x_dot sin_theta cos_theta theta_dot =
     (let tmp = (force + mp p * l p * theta_dot\<^sup>2 * sin_theta) / (mc p + mp p);
          tdd = (g p * sin_theta - cos_theta * tmp)
                  / (l p * (4 / 3 - mp p * cos_theta\<^sup>2 / (mc p + mp p)));
          xdd = tmp - mp p * l p * tdd * cos_theta / (mc p + mp p);
          next_theta = arctan2 sin_theta cos_theta + theta_dot * dt p
      in [x + x_dot * dt p, x_dot + xdd * dt p, sin next_theta, cos next_theta,
          theta_dot + tdd * dt p])"

text \<open>What the batch paths of the two converters compute on one row.\<close>

definition augment_row :: "real list \<Rightarrow> real list" where
  "augment_row r = [r ! 0, r ! 1, sin (r ! 2), cos (r ! 2), r ! 3]"

definition reduce_row :: "real list \<Rightarrow> real list" where
  "reduce_row r = [r ! 0, r ! 1, arctan2 (r ! 2) (r ! 3), r ! 4]"

section \<open>Properties of the two-argument arctangent\<close>

lemma arctan2_range: "- pi < arctan2 y x \<and> arctan2 y x \<le> pi"
proof -
  have lo: "- (pi / 2) < arctan (y / x)" by (rule arctan_lbound)
  have hi: "arctan (y / x) < pi / 2" by (rule arctan_ubound)
  consider (pos) "0 < x" | (neg_up) "x < 0" "0 \<le> y" | (neg_down) "x < 0" "y < 0"
    | (zero) "x = 0"
    by linarith
  then show ?thesis
  proof cases
    case pos
    then have "arctan2 y x = arctan (y / x)" by (simp add: arctan2_def)
    with lo hi pi_gt_zero show ?thesis by linarith
  next
    case neg_up
    then have "y / x \<le> 0" by (simp add: divide_nonneg_neg)
    then have "arctan (y / x) \<le> 0" by simp
    moreover from neg_up have "arctan2 y x = arctan (y / x) + pi" by (simp add: arctan2_def)
    ultimately show ?thesis using lo pi_gt_zero by linarith
  next
    case neg_down
    then have "0 < y / x" by (simp add: divide_neg_neg)
    then have "0 < arctan (y / x)" by simp
    moreover from neg_down have "arctan2 y x = arctan (y / x) - pi" by (simp add: arctan2_def)
    ultimately show ?thesis using hi pi_gt_zero by linarith
  next
    case zero
    then have "arctan2 y x = pi / 2 \<or> arctan2 y x = - (pi / 2) \<or> arctan2 y x = 0"
      by (simp add: arctan2_def)
    with pi_gt_zero show ?thesis by linarith
  qed
qed

lemma cos_nonpos_upper: "pi / 2 \<le> t \<Longrightarrow> t \<le> pi \<Longrightarrow> cos t \<le> 0"
  using cos_monotone_0_pi_le [of "pi / 2" t] by simp

lemma cos_neg_upper: "pi / 2 < t \<Longrightarrow> t \<le> pi \<Longrightarrow> cos t < 0"
  using cos_monotone_0_pi [of "pi / 2" t] by simp

lemma cos_nonpos_lower: "- pi \<le> t \<Longrightarrow> t \<le> - (pi / 2) \<Longrightarrow> cos t \<le> 0"
  using cos_nonpos_upper [of "- t"] by simp

lemma cos_neg_lower: "- pi \<le> t \<Longrightarrow> t < - (pi / 2) \<Longrightarrow> cos t < 0"
  using cos_neg_upper [of "- t"] by simp

lemma sin_neg_lower: "- pi < t \<Longrightarrow> t < 0 \<Longrightarrow> sin t < 0"
  using sin_gt_zero [of "- t"] by simp

lemma arctan2_sin_cos:
  assumes "- pi < t" and "t \<le> pi"
  shows "arctan2 (sin t) (cos t) = t"
proof -
  consider (right) "- (pi / 2) < t" "t < pi / 2" | (top) "t = pi / 2" | (bottom) "t = - (pi / 2)"
    | (upper) "pi / 2 < t" | (lower) "t < - (pi / 2)"
    by linarith
  then show ?thesis
  proof cases
    case right
    then have "0 < cos t" by (rule cos_gt_zero_pi)
    then have "arctan2 (sin t) (cos t) = arctan (tan t)" by (simp add: arctan2_def tan_def)
    with right show ?thesis by (simp add: arctan_tan)
  next
    case top
    have "arctan2 (sin (pi / 2)) (cos (pi / 2)) = pi / 2" by (simp add: arctan2_def)
    with top show ?thesis by (simp only:)
  next
    case bottom
    have "arctan2 (sin (- (pi / 2))) (cos (- (pi / 2))) = - (pi / 2)"
      by (simp add: arctan2_def)
    with bottom show ?thesis by (simp only:)
  next
    case upper
    with assms have c: "cos t < 0" by (simp add: cos_neg_upper)
    from upper assms pi_gt_zero have "0 \<le> t" by linarith
    with assms have s: "0 \<le> sin t" by (simp add: sin_ge_zero)
    have "tan t = tan (t - pi)" using tan_periodic_pi [of "t - pi"] by simp
    moreover have "arctan (tan (t - pi)) = t - pi"
      using upper assms by (intro arctan_tan) linarith+
    ultimately have "arctan (sin t / cos t) = t - pi" by (simp add: tan_def)
    with c s show ?thesis by (simp add: arctan2_def)
  next
    case lower
    with assms have c: "cos t < 0" by (simp add: cos_neg_lower)
    from lower assms pi_gt_zero have "t < 0" by linarith
    with assms have s: "sin t < 0" by (simp add: sin_neg_lower)
    have "arctan (tan (t + pi)) = t + pi"
      using lower assms by (intro arctan_tan) linarith+
    then have "arctan (sin t / cos t) = t + pi" by (simp add: tan_def)
    with c s show ?thesis by (simp add: arctan2_def)
  qed
qed

lemma arctan2_idem: "arctan2 (sin (arctan2 y x)) (cos (arctan2 y x)) = arctan2 y x"
  using arctan2_range [of y x] by (simp add: arctan2_sin_cos)

section \<open>The converters in closed form\<close>

text \<open>
  The first equation of each converter is the branch \<^verbatim>\<open>state.ndim == 1\<close> of the source,
  the second one its \<^verbatim>\<open>else\<close> branch.
\<close>

lemma ndim_one: "ndim state = 1 \<longleftrightarrow> (\<exists>xs. state = Array1 xs)"
  by (cases state) simp_all

lemma augment_state_vector:
  "augment_state (Array1 [x, x_dot, theta, theta_dot]) =
     Inr (Array1 [x, x_dot, sin theta, cos theta, theta_dot])"
  by (simp add: hstack_scalars_def)

lemma reduce_state_vector:
  "reduce_state (Array1 [x, x_dot, sin_theta, cos_theta, theta_dot]) =
     Inr (Array1 [x, x_dot, arctan2 sin_theta cos_theta, theta_dot])"
  by (simp add: hstack_scalars_def)

lemma length_four: "length s = 4 \<Longrightarrow> \<exists>a b c d. s = [a, b, c, d]"
  by (auto simp: numeral_eq_Suc length_Suc_conv)

lemma length_five: "length s = 5 \<Longrightarrow> \<exists>a b c d e. s = [a, b, c, d, e]"
  by (auto simp: numeral_eq_Suc length_Suc_conv)

lemma augment_state_short: "length s \<noteq> 4 \<Longrightarrow> augment_state (Array1 s) = Inl ValueError"
  by (auto split: list.splits)

lemma reduce_state_short: "length s \<noteq> 5 \<Longrightarrow> reduce_state (Array1 s) = Inl ValueError"
  by (auto split: list.splits)

lemma augment_state_batch:
  "4 \<le> m \<Longrightarrow> augment_state (Array2 m rows) = Inr (Array2 5 (map augment_row rows))"
  by (auto simp: and_then_def hstack_columns_def augment_row_def list_all_iff
           intro!: nth_equalityI)

lemma reduce_state_batch:
  "5 \<le> m \<Longrightarrow> reduce_state (Array2 m rows) = Inr (Array2 4 (map reduce_row rows))"
  by (auto simp: and_then_def hstack_columns_def reduce_row_def list_all_iff
           intro!: nth_equalityI)

lemma augment_state_narrow: "m < 4 \<Longrightarrow> augment_state (Array2 m rows) = Inl IndexError"
  by (auto simp: and_then_def)

lemma reduce_state_narrow: "m < 5 \<Longrightarrow> reduce_state (Array2 m rows) = Inl IndexError"
  by (auto simp: and_then_def)

lemma augment_state_scalar: "augment_state (Array0 v) = Inl IndexError"
  by (simp add: and_then_def)

lemma reduce_state_scalar: "reduce_state (Array0 v) = Inl IndexError"
  by (simp add: and_then_def)

declare augment_state.simps [simp del] reduce_state.simps [simp del]

lemma reduce_augment_reduce_row: "reduce_row (augment_row (reduce_row r)) = reduce_row r"
  by (simp add: reduce_row_def augment_row_def arctan2_idem)


section \<open>The squashing function of the model\<close>

lemma tensor_constrain_interior:
  assumes "lo < hi"
  shows "lo < tensor_constrain u lo hi \<and> tensor_constrain u lo hi < hi"
proof -
  from assms have h: "0 < (hi - lo) / 2" by simp
  have "(hi - lo) / 2 * tanh u < (hi - lo) / 2 * 1"
    using h tanh_real_lt_1 [of u] by (intro mult_strict_left_mono)
  moreover have "(hi - lo) / 2 * (- 1) < (hi - lo) / 2 * tanh u"
    using h tanh_real_gt_neg1 [of u] by (intro mult_strict_left_mono)
  ultimately show ?thesis by (simp add: tensor_constrain_def field_simps)
qed

section \<open>The claims\<close>

subsection \<open>C1: the transition function computes the formulas of the specification\<close>

text \<open>
  C1. For every augmented state \<open>[x, x_dot, sin_theta, cos_theta, theta_dot]\<close> and
  control \<open>u\<close>, with \<open>F\<close> the control after the optional squashing, the transition
  function returns the five components that the specification's formulas give:
  \<open>temp\<close>, \<open>theta_dot_dot\<close>, \<open>x_dot_dot\<close> and \<open>next_theta\<close> as written there, and the
  Euler step on each component. The two divisors \<open>mc + mp\<close> and
  \<open>l (4/3 - mp cos_theta\<^sup>2 / (mc + mp))\<close> are assumed nonzero, which is where the formulas
  denote numbers.
\<close>

theorem transition_function_formulas:
  assumes "mc p + mp p \<noteq> 0"
    and "l p * (4 / 3 - mp p * cos_theta\<^sup>2 / (mc p + mp p)) \<noteq> 0"
  shows "f squash p x x_dot sin_theta cos_theta theta_dot u =
           map Some (spec_next_state p (F squash p u) x x_dot sin_theta cos_theta theta_dot)"
  using assms
  by (simp add: f_def x_dot_dot_def theta_dot_dot_def numerator_def denominator_def
      temp_def fdiv_def spec_next_state_def Let_def)

theorem transition_function_formulas_witness:
  "f tensor_constrain (default_params (1 / 100)) 0 0 0 1 0 0 =
     map Some (spec_next_state (default_params (1 / 100))
       (F tensor_constrain (default_params (1 / 100)) 0) 0 0 0 1 0)"
  using transition_function_formulas [of "default_params (1 / 100)" 1 tensor_constrain 0 0 0 0 0]
  by (simp add: default_params_def)

subsection \<open>C2: reducing an augmented state gives the state back\<close>

text \<open>
  C2. For every reduced state \<open>[x, x_dot, theta, theta_dot]\<close> whose angle lies in
  \<open>(-\<pi>, \<pi>]\<close>, augmenting and then reducing returns the same four numbers: the
  two-argument arctangent of \<open>(sin theta, cos theta)\<close> recovers \<open>theta\<close>.
\<close>

theorem round_trip:
  assumes "- pi < theta" and "theta \<le> pi"
  shows "and_then (augment_state (Array1 [x, x_dot, theta, theta_dot])) reduce_state =
           Inr (Array1 [x, x_dot, theta, theta_dot])"
  using assms
  by (simp add: augment_state_vector reduce_state_vector and_then_def arctan2_sin_cos)

theorem round_trip_witness:
  "and_then (augment_state (Array1 [1, 2, pi, 3])) reduce_state = Inr (Array1 [1, 2, pi, 3])"
  using round_trip [of pi 1 2 3] by simp

subsection \<open>C3: the upright equilibrium is a fixed point\<close>

text \<open>
  C3. With zero control whose effective force is zero (as after the squashing at the
  default bounds), zero velocities and the upright angle (\<open>sin_theta = 0\<close>,
  \<open>cos_theta = 1\<close>), the transition function returns the state \<open>[x, 0, 0, 1, 0]\<close> it
  was given, for every position \<open>x\<close> and time step, provided the divisors of the
  dynamics are nonzero (they are for positive masses and length).
\<close>

theorem equilibrium_fixed_point:
  assumes "mc p + mp p \<noteq> 0" and "l p \<noteq> 0" and "3 * mp p \<noteq> 4 * (mc p + mp p)"
    and "F squash p 0 = 0"
  shows "f squash p x 0 0 1 0 0 = [Some x, Some 0, Some 0, Some 1, Some 0]"
proof -
  from assms have "4 / 3 - mp p / (mc p + mp p) \<noteq> 0"
    by (simp add: field_simps)
  with assms show ?thesis
    by (simp add: f_def x_dot_dot_def theta_dot_dot_def numerator_def denominator_def
        temp_def fdiv_def arctan2_def)
qed

theorem equilibrium_fixed_point_witness:
  "f tensor_constrain (default_params (1 / 100)) 0 0 0 1 0 0 =
     [Some 0, Some 0, Some 0, Some 1, Some 0]"
  using equilibrium_fixed_point [of "default_params (1 / 100)" tensor_constrain 0]
  by (simp add: default_params_def F_def tensor_constrain_def)

subsection \<open>C4: a one-row batch is converted like the vector\<close>

text \<open>
  C4. For every reduced state \<open>s\<close> of length 4, \<open>augment_state\<close> on the one-row batch
  of \<open>s\<close> returns the one-row batch of what it returns on the vector \<open>s\<close>; and for
  every augmented state \<open>a\<close> of length 5 the same holds of \<open>reduce_state\<close>.
\<close>

theorem batch_equivalence:
  "(length s = 4 \<longrightarrow>
      (\<exists>r. augment_state (Array1 s) = Inr (Array1 r) \<and>
           augment_state (Array2 4 [s]) = Inr (Array2 5 [r]))) \<and>
   (length a = 5 \<longrightarrow>
      (\<exists>r. reduce_state (Array1 a) = Inr (Array1 r) \<and>
           reduce_state (Array2 5 [a]) = Inr (Array2 4 [r])))"
proof (intro conjI impI)
  assume "length s = 4"
  then obtain x x_dot theta theta_dot where "s = [x, x_dot, theta, theta_dot]"
    using length_four by blast
  then show "\<exists>r. augment_state (Array1 s) = Inr (Array1 r) \<and>
                augment_state (Array2 4 [s]) = Inr (Array2 5 [r])"
    by (simp add: augment_state_vector augment_state_batch augment_row_def)
next
  assume "length a = 5"
  then obtain x x_dot sin_theta cos_theta theta_dot
    where "a = [x, x_dot, sin_theta, cos_theta, theta_dot]"
    using length_five by blast
  then show "\<exists>r. reduce_state (Array1 a) = Inr (Array1 r) \<and>
                reduce_state (Array2 5 [a]) = Inr (Array2 4 [r])"
    by (simp add: reduce_state_vector reduce_state_batch reduce_row_def)
qed

theorem batch_equivalence_witness:
  "augment_state (Array1 [1, 2, 0, 3]) = Inr (Array1 [1, 2, 0, 1, 3]) \<and>
   augment_state (Array2 4 [ [1, 2, 0, 3] ]) = Inr (Array2 5 [ [1, 2, 0, 1, 3] ]) \<and>
   reduce_state (Array1 [1, 2, 0, 1, 3]) = Inr (Array1 [1, 2, 0, 3]) \<and>
   reduce_state (Array2 5 [ [1, 2, 0, 1, 3] ]) = Inr (Array2 4 [ [1, 2, 0, 3] ])"
  using batch_equivalence [of "[1, 2, 0, 3]" "[1, 2, 0, 1, 3]"]
  by (simp add: augment_state_vector reduce_state_vector arctan2_def)

subsection \<open>C5: the divisor of the angular acceleration\<close>

text \<open>
  Positive masses and length do not keep the divisor away from zero for every value of
  the input \<open>cos_theta\<close>: with \<open>mc = 2\<close>, \<open>mp = 1\<close>, \<open>l = 1\<close> and \<open>cos_theta = 2\<close> it is
  \<open>4/3 - 4/3 = 0\<close>, and the angular acceleration is not a finite number.
\<close>

theorem denominator_zero_counterexample:
  "0 < mc ((default_params (1 / 100))\<lparr>mc := 2, mp := 1\<rparr>) \<and>
   0 < mp ((default_params (1 / 100))\<lparr>mc := 2, mp := 1\<rparr>) \<and>
   0 < l ((default_params (1 / 100))\<lparr>mc := 2, mp := 1\<rparr>) \<and>
   denominator ((default_params (1 / 100))\<lparr>mc := 2, mp := 1\<rparr>) 2 = Some 0 \<and>
   theta_dot_dot ((default_params (1 / 100))\<lparr>mc := 2, mp := 1\<rparr>) 0 0 2 0 = None"
  by (simp add: default_params_def denominator_def theta_dot_dot_def numerator_def temp_def
      fdiv_def)

text \<open>
  C5, amended. For positive \<open>mc\<close>, \<open>mp\<close> and \<open>l\<close> the divisor
  \<open>l (4/3 - mp cos_theta\<^sup>2 / (mc + mp))\<close> is strictly positive for every \<open>cos_theta\<close>
  with \<open>cos_theta\<^sup>2 \<le> 1\<close>, as on every unit-norm augmented state; in general it is zero
  exactly when \<open>3 mp cos_theta\<^sup>2 = 4 (mc + mp)\<close>.
\<close>

theorem denominator_positive:
  assumes "0 < mc p" and "0 < mp p" and "0 < l p"
  shows "\<exists>d. denominator p cos_theta = Some d
           \<and> (cos_theta\<^sup>2 \<le> 1 \<longrightarrow> 0 < d)
           \<and> (d = 0 \<longleftrightarrow> 3 * mp p * cos_theta\<^sup>2 = 4 * (mc p + mp p))"
proof -
  let ?q = "mp p * cos_theta\<^sup>2 / (mc p + mp p)"
  let ?d = "l p * (4 / 3 - ?q)"
  from assms have s: "0 < mc p + mp p" by simp
  then have d: "denominator p cos_theta = Some ?d"
    by (simp add: denominator_def fdiv_def)
  have pos: "0 < ?d" if "cos_theta\<^sup>2 \<le> 1"
  proof -
    from that assms have "mp p * cos_theta\<^sup>2 \<le> mp p"
      using mult_left_mono [of "cos_theta\<^sup>2" 1 "mp p"] by simp
    with assms have "mp p * cos_theta\<^sup>2 < mc p + mp p" by linarith
    with s have "?q < 1" by simp
    then have "0 < 4 / 3 - ?q" by linarith
    with assms show ?thesis by (simp only: zero_less_mult_iff simp_thms)
  qed
  have "?d = 0 \<longleftrightarrow> ?q = 4 / 3"
    using assms by simp
  also have "\<dots> \<longleftrightarrow> 3 * mp p * cos_theta\<^sup>2 = 4 * (mc p + mp p)"
    using s by (auto simp: field_simps)
  finally have zero: "?d = 0 \<longleftrightarrow> 3 * mp p * cos_theta\<^sup>2 = 4 * (mc p + mp p)" .
  from d pos zero show ?thesis by blast
qed

theorem denominator_positive_witness:
  "\<exists>d. denominator (default_params (1 / 100)) 1 = Some d \<and> 0 < d"
  using denominator_positive [of "default_params (1 / 100)" 1]
  by (auto simp: default_params_def)

subsection \<open>C6: the force that enters the dynamics\<close>

text \<open>
  C6. Without \<open>constrain\<close> the raw control is the force. With \<open>constrain\<close> the force
  is the value of the squashing collaborator at the raw control and the two bounds, so
  that for every raw control it lies strictly between \<open>min_bounds\<close> and \<open>max_bounds\<close>
  whenever the collaborator's values do; the squashing function of the model has that
  property for every pair of bounds with \<open>min_bounds < max_bounds\<close>. In both cases the
  dynamics see the control only through that force: the transition at control \<open>u\<close> is
  the unconstrained transition at the force \<open>F squash p u\<close>.
\<close>

theorem control_force:
  "(\<not> constrain p \<longrightarrow> F squash p u = u) \<and>
   (constrain p \<longrightarrow>
      (\<forall>v. min_bounds p < squash v (min_bounds p) (max_bounds p) \<and>
           squash v (min_bounds p) (max_bounds p) < max_bounds p) \<longrightarrow>
      min_bounds p < F squash p u \<and> F squash p u < max_bounds p) \<and>
   (constrain p \<longrightarrow> min_bounds p < max_bounds p \<longrightarrow>
      min_bounds p < F tensor_constrain p u \<and> F tensor_constrain p u < max_bounds p) \<and>
   f squash p x x_dot sin_theta cos_theta theta_dot u =
     f (\<lambda>v lo hi. v) (p\<lparr>constrain := False\<rparr>) x x_dot sin_theta cos_theta theta_dot
       (F squash p u)"
proof (intro conjI impI)
  assume "\<not> constrain p"
  then show "F squash p u = u" by (simp add: F_def)
next
  assume "constrain p"
    and "\<forall>v. min_bounds p < squash v (min_bounds p) (max_bounds p) \<and>
             squash v (min_bounds p) (max_bounds p) < max_bounds p"
  then show "min_bounds p < F squash p u" and "F squash p u < max_bounds p"
    by (simp_all add: F_def)
next
  assume "constrain p" and "min_bounds p < max_bounds p"
  then show "min_bounds p < F tensor_constrain p u"
    and "F tensor_constrain p u < max_bounds p"
    using tensor_constrain_interior [of "min_bounds p" "max_bounds p" u]
    by (simp_all add: F_def)
next
  show "f squash p x x_dot sin_theta cos_theta theta_dot u =
      f (\<lambda>v lo hi. v) (p\<lparr>constrain := False\<rparr>) x x_dot sin_theta cos_theta theta_dot
        (F squash p u)"
    by (simp add: F_def f_def x_dot_dot_def theta_dot_dot_def numerator_def denominator_def
        temp_def)
qed

theorem control_force_witness:
  "- 1 < F tensor_constrain (default_params (1 / 100)) 1000 \<and>
   F tensor_constrain (default_params (1 / 100)) 1000 < 1 \<and>
   F tensor_constrain ((default_params (1 / 100))\<lparr>constrain := False\<rparr>) 1000 = 1000"
proof -
  have c: "\<forall>v. - 1 < tensor_constrain v (- 1) 1 \<and> tensor_constrain v (- 1) 1 < 1"
    using tensor_constrain_interior [of "- 1" 1] by simp
  show ?thesis
    using c control_force [of "default_params (1 / 100)" tensor_constrain 1000]
      control_force [of "(default_params (1 / 100))\<lparr>constrain := False\<rparr>" tensor_constrain 1000]
    by (simp add: default_params_def)
qed

subsection \<open>C7: the reduced angle is normalised\<close>

text \<open>
  C7. The angle that \<open>reduce_state\<close> produces lies in \<open>(-\<pi>, \<pi>]\<close>, for every
  augmented vector of length 5 and in every row of a batch with at least five columns;
  and reducing the augmentation of \<open>[0, 0, 3\<pi>, 0]\<close> gives the angle \<open>\<pi>\<close>.
\<close>

theorem reduce_state_angle_range:
  "(length a = 5 \<longrightarrow>
      (\<exists>r. reduce_state (Array1 a) = Inr (Array1 r) \<and> length r = 4 \<and>
           - pi < r ! 2 \<and> r ! 2 \<le> pi)) \<and>
   (5 \<le> m \<longrightarrow>
      (\<exists>rs. reduce_state (Array2 m rows) = Inr (Array2 4 rs) \<and> length rs = length rows \<and>
            (\<forall>r \<in> set rs. length r = 4 \<and> - pi < r ! 2 \<and> r ! 2 \<le> pi))) \<and>
   and_then (augment_state (Array1 [0, 0, 3 * pi, 0])) reduce_state =
     Inr (Array1 [0, 0, pi, 0])"
proof (intro conjI impI)
  assume "length a = 5"
  then obtain x x_dot sin_theta cos_theta theta_dot
    where "a = [x, x_dot, sin_theta, cos_theta, theta_dot]"
    using length_five by blast
  then show "\<exists>r. reduce_state (Array1 a) = Inr (Array1 r) \<and> length r = 4 \<and>
                - pi < r ! 2 \<and> r ! 2 \<le> pi"
    using arctan2_range [of sin_theta cos_theta] by (simp add: reduce_state_vector)
next
  assume "5 \<le> m"
  then have "reduce_state (Array2 m rows) = Inr (Array2 4 (map reduce_row rows))"
    by (rule reduce_state_batch)
  moreover have "\<forall>r \<in> set (map reduce_row rows). length r = 4 \<and> - pi < r ! 2 \<and> r ! 2 \<le> pi"
    using arctan2_range by (simp add: reduce_row_def)
  ultimately show "\<exists>rs. reduce_state (Array2 m rows) = Inr (Array2 4 rs) \<and>
      length rs = length rows \<and> (\<forall>r \<in> set rs. length r = 4 \<and> - pi < r ! 2 \<and> r ! 2 \<le> pi)"
    by simp
next
  have "sin (3 * pi) = 0" using sin_npi [of 3] by simp
  moreover have "cos (3 * pi) = - 1" using cos_npi [of 3] by simp
  ultimately show "and_then (augment_state (Array1 [0, 0, 3 * pi, 0])) reduce_state =
      Inr (Array1 [0, 0, pi, 0])"
    by (simp add: augment_state_vector reduce_state_vector and_then_def arctan2_def)
qed

theorem reduce_state_angle_range_witness:
  "reduce_state (Array1 [0, 0, 0, - 1, 0]) = Inr (Array1 [0, 0, pi, 0]) \<and>
   reduce_state (Array2 5 [ [0, 0, 0, - 1, 0], [0, 0, - 1, 0, 0] ]) =
     Inr (Array2 4 [ [0, 0, pi, 0], [0, 0, - (pi / 2), 0] ])"
  using reduce_state_angle_range [of "[0, 0, 0, - 1, 0]" 5 "[ [0, 0, 0, - 1, 0], [0, 0, - 1, 0, 0] ]"]
  by (simp add: reduce_state_vector reduce_state_batch reduce_row_def arctan2_def)

subsection \<open>C8: malformed shapes\<close>

text \<open>
  A batch with more columns than the converter expects is not rejected: on a one-row
  batch of five columns \<open>augment_state\<close> returns a result computed from the first four
  (the fourth column is read as \<open>theta_dot\<close>), and on one of six columns
  \<open>reduce_state\<close> returns a result computed from the first five.
\<close>

theorem malformed_shape_counterexample:
  "wellformed (Array2 5 [ [1, 2, 0, 1, 3] ]) \<and>
   augment_state (Array2 5 [ [1, 2, 0, 1, 3] ]) = Inr (Array2 5 [ [1, 2, 0, 1, 1] ]) \<and>
   wellformed (Array2 6 [ [1, 2, 0, 1, 3, 7] ]) \<and>
   reduce_state (Array2 6 [ [1, 2, 0, 1, 3, 7] ]) = Inr (Array2 4 [ [1, 2, 0, 3] ])"
  by (simp add: augment_state_batch reduce_state_batch augment_row_def reduce_row_def
      arctan2_def)

text \<open>
  C8, amended. A vector of the wrong length raises \<^verbatim>\<open>ValueError\<close> and a batch with too
  few columns raises \<^verbatim>\<open>IndexError\<close>, in both converters, and nothing catches either; a
  batch with too many columns raises nothing: the converters return the result computed
  from the leading columns and ignore the rest.
\<close>

theorem malformed_shape:
  "(length s \<noteq> 4 \<longrightarrow> augment_state (Array1 s) = Inl ValueError) \<and>
   (length a \<noteq> 5 \<longrightarrow> reduce_state (Array1 a) = Inl ValueError) \<and>
   (m < 4 \<longrightarrow> augment_state (Array2 m rows) = Inl IndexError) \<and>
   (m < 5 \<longrightarrow> reduce_state (Array2 m rows) = Inl IndexError) \<and>
   (4 < m \<longrightarrow> augment_state (Array2 m rows) = Inr (Array2 5 (map augment_row rows))) \<and>
   (5 < m \<longrightarrow> reduce_state (Array2 m rows) = Inr (Array2 4 (map reduce_row rows)))"
  by (simp add: augment_state_short reduce_state_short augment_state_narrow
      reduce_state_narrow augment_state_batch reduce_state_batch)

theorem malformed_shape_witness:
  "augment_state (Array1 [1, 2, 3]) = Inl ValueError \<and>
   reduce_state (Array1 [1, 2, 3, 4]) = Inl ValueError \<and>
   augment_state (Array2 3 [ [1, 2, 3] ]) = Inl IndexError \<and>
   reduce_state (Array2 4 [ [1, 2, 3, 4] ]) = Inl IndexError \<and>
   augment_state (Array2 5 [ [1, 2, 0, 1, 3] ]) = Inr (Array2 5 [ [1, 2, 0, 1, 1] ]) \<and>
   reduce_state (Array2 6 [ [1, 2, 0, 1, 3, 7] ]) = Inr (Array2 4 [ [1, 2, 0, 3] ])"
  using malformed_shape [of "[1, 2, 3]" "[1, 2, 3, 4]" 3 "[ [1, 2, 3] ]"]
    malformed_shape [of "[1, 2, 3]" "[1, 2, 3, 4]" 4 "[ [1, 2, 3, 4] ]"]
    malformed_shape [of "[1, 2, 3]" "[1, 2, 3, 4]" 5 "[ [1, 2, 0, 1, 3] ]"]
    malformed_shape [of "[1, 2, 3]" "[1, 2, 3, 4]" 6 "[ [1, 2, 0, 1, 3, 7] ]"]
  by (simp add: augment_row_def reduce_row_def arctan2_def)

subsection \<open>C9: the sine and cosine components have unit norm\<close>

text \<open>
  C9. For every reduced vector of length 4 and every row of a batch with at least four
  columns, the third and fourth components of what \<open>augment_state\<close> returns satisfy
  \<open>sin\<^sup>2 + cos\<^sup>2 = 1\<close>; and for every state, control, parameters and squashing function,
  so do the third and fourth components of the transition function's result, which are
  always finite numbers.
\<close>

theorem unit_norm_preserved:
  "(length s = 4 \<longrightarrow>
      (\<exists>r. augment_state (Array1 s) = Inr (Array1 r) \<and> (r ! 2)\<^sup>2 + (r ! 3)\<^sup>2 = 1)) \<and>
   (4 \<le> m \<longrightarrow>
      (\<exists>rs. augment_state (Array2 m rows) = Inr (Array2 5 rs) \<and> length rs = length rows \<and>
            (\<forall>r \<in> set rs. (r ! 2)\<^sup>2 + (r ! 3)\<^sup>2 = 1))) \<and>
   (\<exists>s' c'. f squash p x x_dot sin_theta cos_theta theta_dot u ! 2 = Some s' \<and>
           f squash p x x_dot sin_theta cos_theta theta_dot u ! 3 = Some c' \<and>
           s'\<^sup>2 + c'\<^sup>2 = 1)"
proof (intro conjI impI)
  assume "length s = 4"
  then obtain a b c d where "s = [a, b, c, d]"
    using length_four by blast
  then show "\<exists>r. augment_state (Array1 s) = Inr (Array1 r) \<and> (r ! 2)\<^sup>2 + (r ! 3)\<^sup>2 = 1"
    by (simp add: augment_state_vector)
next
  assume "4 \<le> m"
  then have "augment_state (Array2 m rows) = Inr (Array2 5 (map augment_row rows))"
    by (rule augment_state_batch)
  moreover have "\<forall>r \<in> set (map augment_row rows). (r ! 2)\<^sup>2 + (r ! 3)\<^sup>2 = 1"
    by (simp add: augment_row_def)
  ultimately show "\<exists>rs. augment_state (Array2 m rows) = Inr (Array2 5 rs) \<and>
      length rs = length rows \<and> (\<forall>r \<in> set rs. (r ! 2)\<^sup>2 + (r ! 3)\<^sup>2 = 1)"
    by simp
next
  show "\<exists>s' c'. f squash p x x_dot sin_theta cos_theta theta_dot u ! 2 = Some s' \<and>
           f squash p x x_dot sin_theta cos_theta theta_dot u ! 3 = Some c' \<and>
           s'\<^sup>2 + c'\<^sup>2 = 1"
    by (simp add: f_def Let_def)
qed

theorem unit_norm_preserved_witness:
  "augment_state (Array1 [1, 2, pi, 3]) = Inr (Array1 [1, 2, 0, - 1, 3]) \<and>
   augment_state (Array2 4 [ [1, 2, pi, 3], [0, 0, 0, 0] ]) =
     Inr (Array2 5 [ [1, 2, 0, - 1, 3], [0, 0, 0, 1, 0] ]) \<and>
   (\<exists>s' c'. f tensor_constrain (default_params (1 / 100)) 0 0 3 4 1 5 ! 2 = Some s' \<and>
           f tensor_constrain (default_params (1 / 100)) 0 0 3 4 1 5 ! 3 = Some c' \<and>
           s'\<^sup>2 + c'\<^sup>2 = 1)"
  using unit_norm_preserved [of "[1, 2, pi, 3]" 4 "[ [1, 2, pi, 3], [0, 0, 0, 0] ]"
      tensor_constrain "default_params (1 / 100)" 0 0 3 4 1 5]
  by (simp add: augment_state_vector augment_state_batch augment_row_def)

subsection \<open>C10: one reduction reaches a fixed point of the round trip\<close>

text \<open>
  C10. For every array \<open>a\<close>, reducing, augmenting again and reducing again gives what
  reducing once gives (the same reduced state, or the same error), whether or not the
  sine and cosine components of \<open>a\<close> have unit norm; and on every vector of length 5 the
  reduction does give a state.
\<close>

theorem reduce_fixed_point:
  "and_then (and_then (reduce_state a) augment_state) reduce_state = reduce_state a \<and>
   (\<forall>v. a = Array1 v \<and> length v = 5 \<longrightarrow> (\<exists>r. reduce_state a = Inr (Array1 r)))"
proof (intro conjI allI impI)
  show "and_then (and_then (reduce_state a) augment_state) reduce_state = reduce_state a"
  proof (cases a)
    case (Array0 v)
    then show ?thesis by (simp add: reduce_state_scalar and_then_def)
  next
    case (Array1 v)
    show ?thesis
    proof (cases "length v = 5")
      case True
      then obtain x x_dot sin_theta cos_theta theta_dot
        where "v = [x, x_dot, sin_theta, cos_theta, theta_dot]"
        using length_five by blast
      with Array1 show ?thesis
        by (simp add: reduce_state_vector augment_state_vector and_then_def arctan2_idem)
    next
      case False
      with Array1 show ?thesis by (simp add: reduce_state_short and_then_def)
    qed
  next
    case (Array2 m rows)
    show ?thesis
    proof (cases "5 \<le> m")
      case True
      with Array2 show ?thesis
        by (simp add: reduce_state_batch augment_state_batch and_then_def
            reduce_augment_reduce_row)
    next
      case False
      with Array2 show ?thesis by (simp add: reduce_state_narrow and_then_def)
    qed
  qed
next
  fix v
  assume "a = Array1 v \<and> length v = 5"
  then obtain x x_dot sin_theta cos_theta theta_dot
    where "a = Array1 [x, x_dot, sin_theta, cos_theta, theta_dot]"
    using length_five by blast
  then show "\<exists>r. reduce_state a = Inr (Array1 r)"
    by (simp add: reduce_state_vector)
qed

theorem reduce_fixed_point_witness:
  "reduce_state (Array1 [0, 0, 0, - 2, 0]) = Inr (Array1 [0, 0, pi, 0]) \<and>
   and_then (and_then (reduce_state (Array1 [0, 0, 0, - 2, 0])) augment_state) reduce_state =
     Inr (Array1 [0, 0, pi, 0])"
  using reduce_fixed_point [of "Array1 [0, 0, 0, - 2, 0]"]
  by (simp add: reduce_state_vector arctan2_def)

end
